theory Spec2Isabelle
  imports Main "HOL-Library.FSet"
begin

section \<open>NimbusCore.h: the debugging tools\<close>

text \<open>
  The header is a set of preprocessor macros around \<^verbatim>\<open>NSLog\<close>, selected by the
  build flags \<^verbatim>\<open>DEBUG\<close> and \<^verbatim>\<open>TARGET_IPHONE_SIMULATOR\<close>, and the declarations of
  functions whose bodies are in the implementation file. A macro is embedded as the
  function that its expansion computes on the state of the running process; the
  argument expressions of a macro are computations on that state, so that whether
  the expansion evaluates them is visible.
\<close>

subsection \<open>Log levels (lines 83 to 85)\<close>

definition NILOGLEVEL_INFO :: int where
  "NILOGLEVEL_INFO = 5"

definition NILOGLEVEL_WARNING :: int where
  "NILOGLEVEL_WARNING = 3"

definition NILOGLEVEL_ERROR :: int where
  "NILOGLEVEL_ERROR = 1"

subsection \<open>The build, the process and the call site\<close>

text \<open>The two preprocessor conditions the header tests.\<close>

record build =
  DEBUG :: bool
  TARGET_IPHONE_SIMULATOR :: bool

text \<open>
  A value passed to \<^verbatim>\<open>NSLog\<close> after the format: a C string (\<^verbatim>\<open>%s\<close>), an integer
  (\<^verbatim>\<open>%d\<close>) or an object (\<^verbatim>\<open>%@\<close>, by its description).
\<close>

datatype vararg = CString string | CInt int | Object string

text \<open>
  What the process does that an observer sees: a call of \<^verbatim>\<open>NSLog\<close> with its format
  and its arguments (one line of the log), and a stop at the breakpoint instruction
  \<^verbatim>\<open>int $3\<close> under a debugger.
\<close>

datatype event = LogLine string "vararg list" | Breakpoint

text \<open>
  The process: the global \<^verbatim>\<open>NIMaxLogLevel\<close> (an \<^verbatim>\<open>NSInteger\<close>; the header only
  compares it, so its values are read as integers), the events so far, whether a
  debugger is attached, and the rest of the program's state, on which the argument
  expressions of a macro act.
\<close>

record 'u process =
  NIMaxLogLevel :: int
  trace :: "event list"
  traced :: bool
  user :: 'u

text \<open>An expression of the program: evaluating it gives a value and may change the state.\<close>

type_synonym ('u, 'a) expr = "'u process \<Rightarrow> 'a \<times> 'u process"

text \<open>
  The place of a macro call. The compiler defines \<^verbatim>\<open>__LINE__\<close>, the line, and
  \<^verbatim>\<open>__PRETTY_FUNCTION__\<close>, the name of the enclosing method. The macros do not read
  the second: lines 103 and 111 spell the identifier \<^verbatim>\<open>__PRENIY_FUNCTION__\<close>, which
  neither the compiler nor the header defines. What that identifier stands for at the
  call site is therefore a field of its own, given by the build.
\<close>

record callsite =
  PRETTY_FUNCTION :: string
  PRENIY_FUNCTION :: string
  LINE :: int

definition NSLog :: "string \<Rightarrow> vararg list \<Rightarrow> 'u process \<Rightarrow> 'u process" where
  "NSLog format args w = w\<lparr>trace := trace w @ [LogLine format args]\<rparr>"

subsection \<open>NIDPRINT and NIDPRINTMETHODNAME (lines 102 to 111)\<close>

text \<open>
  \<^verbatim>\<open>NSLog(@"%s(%d): " xx, __PRENIY_FUNCTION__, __LINE__, ##__VA_ARGS__)\<close> when
  \<^verbatim>\<open>DEBUG\<close> is defined: the two literals are one format, and the variadic arguments are
  evaluated for the call. Otherwise \<^verbatim>\<open>((void)0)\<close>.
\<close>

definition NIDPRINT ::
  "build \<Rightarrow> callsite \<Rightarrow> string \<Rightarrow> ('u, vararg list) expr \<Rightarrow> 'u process \<Rightarrow> 'u process" where
  "NIDPRINT b cs xx va_args w =
     (if DEBUG b then
        (case va_args w of
           (vs, w1) \<Rightarrow>
             NSLog (''%s(%d): '' @ xx) ([CString (PRENIY_FUNCTION cs), CInt (LINE cs)] @ vs) w1)
      else w)"

definition NIDPRINTMETHODNAME :: "build \<Rightarrow> callsite \<Rightarrow> 'u process \<Rightarrow> 'u process" where
  "NIDPRINTMETHODNAME b cs w =
     NIDPRINT b cs ''%s'' (\<lambda>s. ([CString (PRENIY_FUNCTION cs)], s)) w"

subsection \<open>NIDASSERT (lines 119 to 136)\<close>

text \<open>
  Modelled from the spec: the body of \<^verbatim>\<open>NIIsInDebugger\<close> is not in the header (line 124
  declares it). The spec calls it the host's query "is an interactive debugger
  attached"; it answers with a C truth value.
\<close>

definition NIIsInDebugger :: "'u process \<Rightarrow> int" where
  "NIIsInDebugger w = (if traced w then 1 else 0)"

text \<open>
  The instruction \<^verbatim>\<open>int $3\<close> raises the breakpoint trap. Under a debugger the process
  stops there and goes on when told to; with no debugger the trap is the signal
  SIGTRAP, which ends the process.
\<close>

datatype signal = SIGTRAP

definition int3 :: "'u process \<Rightarrow> signal + 'u process" where
  "int3 w = (if traced w then Inr (w\<lparr>trace := trace w @ [Breakpoint]\<rparr>) else Inl SIGTRAP)"

text \<open>
  \<^verbatim>\<open>xx_text\<close> is the text of the asserted expression (\<^verbatim>\<open>#xx\<close>) and \<^verbatim>\<open>xx\<close> its
  evaluation. The three branches are the three definitions of the macro.
\<close>

definition NIDASSERT ::
  "build \<Rightarrow> callsite \<Rightarrow> string \<Rightarrow> ('u, bool) expr \<Rightarrow> 'u process \<Rightarrow> signal + 'u process" where
  "NIDASSERT b cs xx_text xx w =
     (if DEBUG b then
        (if TARGET_IPHONE_SIMULATOR b then
           (case xx w of
              (c, w1) \<Rightarrow>
                if \<not> c then
                  (let w2 = NIDPRINT b cs ''NIDASSERT failed: %s'' (\<lambda>s. ([CString xx_text], s)) w1
                   in if NIIsInDebugger w2 \<noteq> 0 then int3 w2 else Inr w2)
                else Inr w1)
         else
           (case xx w of
              (c, w1) \<Rightarrow>
                if \<not> c then
                  Inr (NIDPRINT b cs ''NIDASSERT failed: %s'' (\<lambda>s. ([CString xx_text], s)) w1)
                else Inr w1))
      else Inr w)"

subsection \<open>NIDCONDITIONLOG and the level-based loggers (lines 138 to 167)\<close>

definition NIDCONDITIONLOG ::
  "build \<Rightarrow> callsite \<Rightarrow> ('u, bool) expr \<Rightarrow> string \<Rightarrow> ('u, vararg list) expr \<Rightarrow>
   'u process \<Rightarrow> 'u process" where
  "NIDCONDITIONLOG b cs condition xx va_args w =
     (if DEBUG b then
        (case condition w of
           (c, w1) \<Rightarrow> if c then NIDPRINT b cs xx va_args w1 else w1)
      else w)"

definition NIDERROR ::
  "build \<Rightarrow> callsite \<Rightarrow> string \<Rightarrow> ('u, vararg list) expr \<Rightarrow> 'u process \<Rightarrow> 'u process" where
  "NIDERROR b cs xx va_args w =
     NIDCONDITIONLOG b cs (\<lambda>s. (NILOGLEVEL_ERROR \<le> NIMaxLogLevel s, s)) xx va_args w"

definition NIDWARNING ::
  "build \<Rightarrow> callsite \<Rightarrow> string \<Rightarrow> ('u, vararg list) expr \<Rightarrow> 'u process \<Rightarrow> 'u process" where
  "NIDWARNING b cs xx va_args w =
     NIDCONDITIONLOG b cs (\<lambda>s. (NILOGLEVEL_WARNING \<le> NIMaxLogLevel s, s)) xx va_args w"

definition NIDINFO ::
  "build \<Rightarrow> callsite \<Rightarrow> string \<Rightarrow> ('u, vararg list) expr \<Rightarrow> 'u process \<Rightarrow> 'u process" where
  "NIDINFO b cs xx va_args w =
     NIDCONDITIONLOG b cs (\<lambda>s. (NILOGLEVEL_INFO \<le> NIMaxLogLevel s, s)) xx va_args w"

subsection \<open>NIMaxLogLevel (line 94)\<close>

text \<open>
  Modelled from the spec: the definition of \<^verbatim>\<open>NIMaxLogLevel\<close>, with its initialiser,
  is in the implementation file; line 94 of the header only declares it \<^verbatim>\<open>extern\<close>
  (and not \<^verbatim>\<open>const\<close>). The spec and the header's comment give the value at the start of
  the process: the Warning level. \<^verbatim>\<open>process_start\<close> is the process before any macro
  has run.
\<close>

definition process_start :: "bool \<Rightarrow> 'u \<Rightarrow> 'u process" where
  "process_start under_debugger u =
     \<lparr>NIMaxLogLevel = NILOGLEVEL_WARNING, trace = [], traced = under_debugger, user = u\<rparr>"

text \<open>A caller reads the global and assigns to it.\<close>

definition read_NIMaxLogLevel :: "('u, int) expr" where
  "read_NIMaxLogLevel w = (NIMaxLogLevel w, w)"

definition write_NIMaxLogLevel :: "int \<Rightarrow> 'u process \<Rightarrow> 'u process" where
  "write_NIMaxLogLevel v w = w\<lparr>NIMaxLogLevel := v\<rparr>"

section \<open>NimbusCore.h: non-retaining collections (lines 193 to 213)\<close>

text \<open>
  Objects live in a heap that counts the owning references to each: \<^verbatim>\<open>retain\<close> adds
  one, \<^verbatim>\<open>release\<close> takes one away and destroys the object with its last. A message
  to a reference whose object is gone is a fault.
\<close>

type_synonym ref = nat

type_synonym heap = "ref \<rightharpoonup> nat"

datatype fault = Dangling ref

definition retain :: "ref \<Rightarrow> heap \<Rightarrow> fault + heap" where
  "retain r h = (case h r of None \<Rightarrow> Inl (Dangling r) | Some n \<Rightarrow> Inr (h(r \<mapsto> Suc n)))"

definition release :: "ref \<Rightarrow> heap \<Rightarrow> fault + heap" where
  "release r h =
     (case h r of
        None \<Rightarrow> Inl (Dangling r)
      | Some n \<Rightarrow> if n \<le> 1 then Inr (h(r := None)) else Inr (h(r \<mapsto> n - 1)))"

text \<open>
  A mutable collection holds references and says whether it owns them: a collection of
  the framework retains what is put into it.
\<close>

record mutable_array =
  array_retains :: bool
  array_items :: "ref list"

record mutable_dictionary =
  dictionary_retains_values :: bool
  dictionary_entries :: "string \<rightharpoonup> ref"

record mutable_set =
  set_retains :: bool
  set_members :: "ref list"

definition addObject :: "ref \<Rightarrow> mutable_array \<Rightarrow> heap \<Rightarrow> fault + mutable_array \<times> heap" where
  "addObject r a h =
     (if array_retains a then
        (case retain r h of
           Inl f \<Rightarrow> Inl f
         | Inr h1 \<Rightarrow> Inr (a\<lparr>array_items := array_items a @ [r]\<rparr>, h1))
      else Inr (a\<lparr>array_items := array_items a @ [r]\<rparr>, h))"

text \<open>
  \<^verbatim>\<open>setObject:forKey:\<close> puts the value in the place of the one that the key had, if
  any; a dictionary that owns its values releases that one.
\<close>

definition setObject ::
  "ref \<Rightarrow> string \<Rightarrow> mutable_dictionary \<Rightarrow> heap \<Rightarrow> fault + mutable_dictionary \<times> heap" where
  "setObject r k d h =
     (if dictionary_retains_values d then
        (case retain r h of
           Inl f \<Rightarrow> Inl f
         | Inr h1 \<Rightarrow>
             (case dictionary_entries d k of
                None \<Rightarrow> Inr (d\<lparr>dictionary_entries := (dictionary_entries d)(k \<mapsto> r)\<rparr>, h1)
              | Some old \<Rightarrow>
                  (case release old h1 of
                     Inl f \<Rightarrow> Inl f
                   | Inr h2 \<Rightarrow>
                       Inr (d\<lparr>dictionary_entries := (dictionary_entries d)(k \<mapsto> r)\<rparr>, h2))))
      else Inr (d\<lparr>dictionary_entries := (dictionary_entries d)(k \<mapsto> r)\<rparr>, h))"

text \<open>A set takes an object that it holds already without any change.\<close>

definition addMember :: "ref \<Rightarrow> mutable_set \<Rightarrow> heap \<Rightarrow> fault + mutable_set \<times> heap" where
  "addMember r s h =
     (if r \<in> set (set_members s) then Inr (s, h)
      else if set_retains s then
        (case retain r h of
           Inl f \<Rightarrow> Inl f
         | Inr h1 \<Rightarrow> Inr (s\<lparr>set_members := set_members s @ [r]\<rparr>, h1))
      else Inr (s\<lparr>set_members := set_members s @ [r]\<rparr>, h))"

text \<open>
  Modelled from the spec: the bodies of \<^verbatim>\<open>NICreateNonRetainingArray\<close>,
  \<^verbatim>\<open>NICreateNonRetainingDictionary\<close> and \<^verbatim>\<open>NICreateNonRetainingSet\<close> are not in the
  header (lines 198, 206 and 213 declare them). The spec: each returns an empty, mutable
  container configured so that adding an element stores a non-owning reference;
  construction cannot fail.
\<close>

definition NICreateNonRetainingArray :: mutable_array where
  "NICreateNonRetainingArray = \<lparr>array_retains = False, array_items = []\<rparr>"

definition NICreateNonRetainingDictionary :: mutable_dictionary where
  "NICreateNonRetainingDictionary =
     \<lparr>dictionary_retains_values = False, dictionary_entries = Map.empty\<rparr>"

definition NICreateNonRetainingSet :: mutable_set where
  "NICreateNonRetainingSet = \<lparr>set_retains = False, set_members = []\<rparr>"

text \<open>Any number of insertions, one after the other, stopping at the first fault.\<close>

fun addObjects :: "ref list \<Rightarrow> mutable_array \<Rightarrow> heap \<Rightarrow> fault + mutable_array \<times> heap" where
  "addObjects [] a h = Inr (a, h)"
| "addObjects (r # rs) a h =
     (case addObject r a h of Inl f \<Rightarrow> Inl f | Inr (a1, h1) \<Rightarrow> addObjects rs a1 h1)"

fun setObjects ::
  "(string \<times> ref) list \<Rightarrow> mutable_dictionary \<Rightarrow> heap \<Rightarrow> fault + mutable_dictionary \<times> heap" where
  "setObjects [] d h = Inr (d, h)"
| "setObjects ((k, r) # krs) d h =
     (case setObject r k d h of Inl f \<Rightarrow> Inl f | Inr (d1, h1) \<Rightarrow> setObjects krs d1 h1)"

fun addMembers :: "ref list \<Rightarrow> mutable_set \<Rightarrow> heap \<Rightarrow> fault + mutable_set \<times> heap" where
  "addMembers [] s h = Inr (s, h)"
| "addMembers (r # rs) s h =
     (case addMember r s h of Inl f \<Rightarrow> Inl f | Inr (s1, h1) \<Rightarrow> addMembers rs s1 h1)"

section \<open>NimbusCore.h: non-empty collection testing (lines 236 to 249)\<close>

text \<open>
  A value of type \<^verbatim>\<open>id\<close>: \<^verbatim>\<open>nil\<close>, or an object of one of the classes that the
  predicates tell apart, with its contents.
\<close>

datatype id =
    nil
  | NSArray "id list"
  | NSSet "id fset"
  | NSString string
  | NSDictionary "(string \<times> id) list"
  | NSNumber int

text \<open>
  Modelled from the spec: the bodies of \<^verbatim>\<open>NIIsArrayWithObjects\<close>,
  \<^verbatim>\<open>NIIsSetWithObjects\<close> and \<^verbatim>\<open>NIIsStringWithAnyText\<close> are not in the header (lines
  239, 244 and 249 declare them). The spec: false if the value is absent, false if it
  is not of the expected shape, false if the shape is empty, true otherwise.
\<close>

fun NIIsArrayWithObjects :: "id \<Rightarrow> bool" where
  "NIIsArrayWithObjects nil = False"
| "NIIsArrayWithObjects (NSArray xs) = (0 < length xs)"
| "NIIsArrayWithObjects _ = False"

fun NIIsSetWithObjects :: "id \<Rightarrow> bool" where
  "NIIsSetWithObjects nil = False"
| "NIIsSetWithObjects (NSSet s) = (0 < fcard s)"
| "NIIsSetWithObjects _ = False"

fun NIIsStringWithAnyText :: "id \<Rightarrow> bool" where
  "NIIsStringWithAnyText nil = False"
| "NIIsStringWithAnyText (NSString t) = (0 < length t)"
| "NIIsStringWithAnyText _ = False"

section \<open>NimbusCore.h: paths (lines 343 to 356)\<close>

text \<open>
  The two roots belong to the host: the resource path of the main bundle and the
  documents directory. A bundle is known by its resource path.
\<close>

record NSBundle =
  resourcePath :: string

record host =
  mainBundle :: NSBundle
  documentsDirectory :: string

text \<open>
  Modelled from the spec: the bodies of \<^verbatim>\<open>NIPathForBundleResource\<close> and
  \<^verbatim>\<open>NIPathForDocumentsResource\<close> are not in the header (lines 350 and 356 declare
  them). The spec: the concatenation of the base directory and the relative path with a
  normalized separator, whether or not the relative path starts with one; no existence
  check and no I/O. The header's comment: a nil bundle stands for the main bundle.
  \<^verbatim>\<open>appendPathComponent\<close> takes a separator off the end of the base and off the start
  of the relative path, if there is one, and puts one between the two.
\<close>

definition appendPathComponent :: "string \<Rightarrow> string \<Rightarrow> string" where
  "appendPathComponent base relativePath =
     (let b = (if base \<noteq> [] \<and> last base = CHR ''/'' then butlast base else base);
          r = (if relativePath \<noteq> [] \<and> hd relativePath = CHR ''/'' then tl relativePath
               else relativePath)
      in b @ ''/'' @ r)"

definition NIPathForBundleResource :: "host \<Rightarrow> NSBundle option \<Rightarrow> string \<Rightarrow> string" where
  "NIPathForBundleResource h bundle relativePath =
     appendPathComponent
       (resourcePath (case bundle of None \<Rightarrow> mainBundle h | Some b \<Rightarrow> b)) relativePath"

definition NIPathForDocumentsResource :: "host \<Rightarrow> string \<Rightarrow> string" where
  "NIPathForDocumentsResource h relativePath =
     appendPathComponent (documentsDirectory h) relativePath"

section \<open>Properties of the debugging tools\<close>

subsection \<open>Expansions\<close>

lemma NIDPRINT_debug:
  "DEBUG b \<Longrightarrow> va_args w = (vs, w1) \<Longrightarrow>
   NIDPRINT b cs xx va_args w =
     NSLog (''%s(%d): '' @ xx) (CString (PRENIY_FUNCTION cs) # CInt (LINE cs) # vs) w1"
  by (simp add: NIDPRINT_def)

lemma NIDCONDITIONLOG_expand:
  "condition w = (c, w1) \<Longrightarrow> va_args w1 = (vs, w2) \<Longrightarrow>
   NIDCONDITIONLOG b cs condition xx va_args w =
     (if DEBUG b then
        (if c then
           NSLog (''%s(%d): '' @ xx) (CString (PRENIY_FUNCTION cs) # CInt (LINE cs) # vs) w2
         else w1)
      else w)"
  by (simp add: NIDCONDITIONLOG_def NIDPRINT_def)

lemma NIDPRINTMETHODNAME_debug:
  "DEBUG b \<Longrightarrow>
   NIDPRINTMETHODNAME b cs w =
     NSLog ''%s(%d): %s''
       [CString (PRENIY_FUNCTION cs), CInt (LINE cs), CString (PRENIY_FUNCTION cs)] w"
  by (simp add: NIDPRINTMETHODNAME_def NIDPRINT_def)

subsection \<open>The log levels\<close>

text \<open>
  C6. The severity levels have the fixed ranks Error = 1, Warning = 3 and Info = 5,
  ordered Error < Warning < Info, with the gaps between the ranks as they are.
\<close>

theorem log_level_ranks:
  "NILOGLEVEL_ERROR = 1 \<and> NILOGLEVEL_WARNING = 3 \<and> NILOGLEVEL_INFO = 5 \<and>
   NILOGLEVEL_ERROR < NILOGLEVEL_WARNING \<and> NILOGLEVEL_WARNING < NILOGLEVEL_INFO"
  by (simp add: NILOGLEVEL_ERROR_def NILOGLEVEL_WARNING_def NILOGLEVEL_INFO_def)

text \<open>
  C7. \<^verbatim>\<open>NIMaxLogLevel\<close> is one mutable value of the process: at the start it is the
  Warning rank, 3; a caller reads it without changing anything, reads back what was
  last written, and a write changes nothing else.
\<close>

theorem NIMaxLogLevel_default_and_mutable:
  "NIMaxLogLevel (process_start d u) = NILOGLEVEL_WARNING \<and>
   NIMaxLogLevel (process_start d u) = 3 \<and>
   read_NIMaxLogLevel w = (NIMaxLogLevel w, w) \<and>
   fst (read_NIMaxLogLevel (write_NIMaxLogLevel v w)) = v \<and>
   write_NIMaxLogLevel v (write_NIMaxLogLevel v' w) = write_NIMaxLogLevel v w \<and>
   trace (write_NIMaxLogLevel v w) = trace w \<and>
   traced (write_NIMaxLogLevel v w) = traced w \<and>
   user (write_NIMaxLogLevel v w) = user w"
  by (simp add: process_start_def read_NIMaxLogLevel_def write_NIMaxLogLevel_def
      NILOGLEVEL_WARNING_def)

subsection \<open>The release build\<close>

text \<open>
  C2. When \<^verbatim>\<open>DEBUG\<close> is not defined, every logging and assertion macro leaves the
  process as it was: nothing is logged, and neither the condition nor the arguments are
  evaluated, whatever they would do to the state.
\<close>

theorem release_build_expands_to_nothing:
  assumes "\<not> DEBUG b"
  shows "NIDPRINT b cs xx va_args w = w \<and>
         NIDPRINTMETHODNAME b cs w = w \<and>
         NIDASSERT b cs xx_text condition w = Inr w \<and>
         NIDCONDITIONLOG b cs condition xx va_args w = w \<and>
         NIDERROR b cs xx va_args w = w \<and>
         NIDWARNING b cs xx va_args w = w \<and>
         NIDINFO b cs xx va_args w = w"
  using assms
  by (simp add: NIDPRINT_def NIDPRINTMETHODNAME_def NIDASSERT_def NIDCONDITIONLOG_def
      NIDERROR_def NIDWARNING_def NIDINFO_def)

text \<open>
  At a call whose argument is \<^verbatim>\<open>n++\<close> and whose condition is \<^verbatim>\<open>n++ > 0\<close>: each would
  change \<^verbatim>\<open>n\<close>, and \<^verbatim>\<open>n\<close> stays 0.
\<close>

theorem release_build_expands_to_nothing_witness:
  "NIDPRINT \<lparr>DEBUG = False, TARGET_IPHONE_SIMULATOR = True\<rparr>
     \<lparr>PRETTY_FUNCTION = ''-[Foo bar]'', PRENIY_FUNCTION = ''-[Foo bar]'', LINE = 10\<rparr>
     ''n = %d'' (\<lambda>s. ([CInt (user s)], s\<lparr>user := user s + 1\<rparr>))
     \<lparr>NIMaxLogLevel = 5, trace = [], traced = True, user = (0::int)\<rparr>
   = \<lparr>NIMaxLogLevel = 5, trace = [], traced = True, user = 0\<rparr> \<and>
   NIDASSERT \<lparr>DEBUG = False, TARGET_IPHONE_SIMULATOR = True\<rparr>
     \<lparr>PRETTY_FUNCTION = ''-[Foo bar]'', PRENIY_FUNCTION = ''-[Foo bar]'', LINE = 10\<rparr>
     ''n++ > 0'' (\<lambda>s. (0 < user s, s\<lparr>user := user s + 1\<rparr>))
     \<lparr>NIMaxLogLevel = 5, trace = [], traced = True, user = (0::int)\<rparr>
   = Inr \<lparr>NIMaxLogLevel = 5, trace = [], traced = True, user = 0\<rparr> \<and>
   NIDINFO \<lparr>DEBUG = False, TARGET_IPHONE_SIMULATOR = True\<rparr>
     \<lparr>PRETTY_FUNCTION = ''-[Foo bar]'', PRENIY_FUNCTION = ''-[Foo bar]'', LINE = 10\<rparr>
     ''n = %d'' (\<lambda>s. ([CInt (user s)], s\<lparr>user := user s + 1\<rparr>))
     \<lparr>NIMaxLogLevel = 5, trace = [], traced = True, user = (0::int)\<rparr>
   = \<lparr>NIMaxLogLevel = 5, trace = [], traced = True, user = 0\<rparr> \<and>
   user (snd ((\<lambda>s. ([CInt (user s)], s\<lparr>user := user s + 1\<rparr>))
     \<lparr>NIMaxLogLevel = 5, trace = [], traced = True, user = (0::int)\<rparr>)) = 1"
  using release_build_expands_to_nothing
    [of "\<lparr>DEBUG = False, TARGET_IPHONE_SIMULATOR = True\<rparr>"
      "\<lparr>PRETTY_FUNCTION = ''-[Foo bar]'', PRENIY_FUNCTION = ''-[Foo bar]'', LINE = 10\<rparr>"
      "''n = %d''" "\<lambda>s. ([CInt (user s)], s\<lparr>user := user s + 1\<rparr>)"
      "\<lparr>NIMaxLogLevel = 5, trace = [], traced = True, user = (0::int)\<rparr>"
      "''n++ > 0''" "\<lambda>s. (0 < user s, s\<lparr>user := user s + 1\<rparr>)"]
  by simp

subsection \<open>The conditional log and the level-based loggers\<close>

text \<open>
  C10. In a debug build \<^verbatim>\<open>NIDCONDITIONLOG\<close> evaluates its condition and logs the message,
  after the call-site prefix, exactly when the condition is true; otherwise it does not
  evaluate the arguments. Nothing in it reads \<^verbatim>\<open>NIMaxLogLevel\<close>: with a condition and
  arguments that do not read it, the lines added are the same for every threshold
  \<^verbatim>\<open>t\<close>. The threshold enters through \<^verbatim>\<open>NIDERROR\<close>, \<^verbatim>\<open>NIDWARNING\<close> and \<^verbatim>\<open>NIDINFO\<close>
  only, which pass the comparison of their level with it as the condition.
\<close>

theorem NIDCONDITIONLOG_logs_iff_condition:
  assumes "DEBUG b" and "condition w = (c, w1)" and "va_args w1 = (vs, w2)"
  shows "NIDCONDITIONLOG b cs condition xx va_args w =
           (if c then
              NSLog (''%s(%d): '' @ xx) (CString (PRENIY_FUNCTION cs) # CInt (LINE cs) # vs) w2
            else w1) \<and>
         trace (NIDCONDITIONLOG b cs (\<lambda>s. (c, s)) xx (\<lambda>s. (vs, s)) (w\<lparr>NIMaxLogLevel := t\<rparr>)) =
           trace w @
           (if c then
              [LogLine (''%s(%d): '' @ xx) (CString (PRENIY_FUNCTION cs) # CInt (LINE cs) # vs)]
            else []) \<and>
         NIDERROR b cs xx va_args =
           NIDCONDITIONLOG b cs (\<lambda>s. (NILOGLEVEL_ERROR \<le> NIMaxLogLevel s, s)) xx va_args \<and>
         NIDWARNING b cs xx va_args =
           NIDCONDITIONLOG b cs (\<lambda>s. (NILOGLEVEL_WARNING \<le> NIMaxLogLevel s, s)) xx va_args \<and>
         NIDINFO b cs xx va_args =
           NIDCONDITIONLOG b cs (\<lambda>s. (NILOGLEVEL_INFO \<le> NIMaxLogLevel s, s)) xx va_args"
proof -
  have general:
    "NIDCONDITIONLOG b cs condition xx va_args w =
       (if c then
          NSLog (''%s(%d): '' @ xx) (CString (PRENIY_FUNCTION cs) # CInt (LINE cs) # vs) w2
        else w1)"
    using assms by (simp add: NIDCONDITIONLOG_expand)
  have any_threshold:
    "trace (NIDCONDITIONLOG b cs (\<lambda>s. (c, s)) xx (\<lambda>s. (vs, s)) (w\<lparr>NIMaxLogLevel := t\<rparr>)) =
       trace w @
       (if c then
          [LogLine (''%s(%d): '' @ xx) (CString (PRENIY_FUNCTION cs) # CInt (LINE cs) # vs)]
        else [])"
    using assms(1) by (simp add: NIDCONDITIONLOG_def NIDPRINT_def NSLog_def)
  have wrappers:
    "NIDERROR b cs xx va_args =
       NIDCONDITIONLOG b cs (\<lambda>s. (NILOGLEVEL_ERROR \<le> NIMaxLogLevel s, s)) xx va_args"
    "NIDWARNING b cs xx va_args =
       NIDCONDITIONLOG b cs (\<lambda>s. (NILOGLEVEL_WARNING \<le> NIMaxLogLevel s, s)) xx va_args"
    "NIDINFO b cs xx va_args =
       NIDCONDITIONLOG b cs (\<lambda>s. (NILOGLEVEL_INFO \<le> NIMaxLogLevel s, s)) xx va_args"
    by (rule ext, simp add: NIDERROR_def NIDWARNING_def NIDINFO_def)+
  from general any_threshold wrappers show ?thesis by (intro conjI)
qed

text \<open>
  A true and a false condition, in a process whose threshold is the Error level: the
  first call logs, the second does not.
\<close>

theorem NIDCONDITIONLOG_logs_iff_condition_witness:
  "NIDCONDITIONLOG \<lparr>DEBUG = True, TARGET_IPHONE_SIMULATOR = False\<rparr>
     \<lparr>PRETTY_FUNCTION = ''-[Foo bar]'', PRENIY_FUNCTION = ''-[Foo bar]'', LINE = 10\<rparr>
     (\<lambda>s. (True, s)) ''n = %d'' (\<lambda>s. ([CInt 7], s))
     \<lparr>NIMaxLogLevel = 1, trace = [], traced = False, user = ()\<rparr>
   = \<lparr>NIMaxLogLevel = 1,
      trace = [LogLine ''%s(%d): n = %d'' [CString ''-[Foo bar]'', CInt 10, CInt 7]],
      traced = False, user = ()\<rparr> \<and>
   NIDCONDITIONLOG \<lparr>DEBUG = True, TARGET_IPHONE_SIMULATOR = False\<rparr>
     \<lparr>PRETTY_FUNCTION = ''-[Foo bar]'', PRENIY_FUNCTION = ''-[Foo bar]'', LINE = 10\<rparr>
     (\<lambda>s. (False, s)) ''n = %d'' (\<lambda>s. ([CInt 7], s))
     \<lparr>NIMaxLogLevel = 1, trace = [], traced = False, user = ()\<rparr>
   = \<lparr>NIMaxLogLevel = 1, trace = [], traced = False, user = ()\<rparr>"
  using
    NIDCONDITIONLOG_logs_iff_condition
      [of "\<lparr>DEBUG = True, TARGET_IPHONE_SIMULATOR = False\<rparr>" "\<lambda>s. (True, s)"
        "\<lparr>NIMaxLogLevel = 1, trace = [], traced = False, user = ()\<rparr>" True
        "\<lparr>NIMaxLogLevel = 1, trace = [], traced = False, user = ()\<rparr>"
        "\<lambda>s. ([CInt 7], s)" "[CInt 7]"
        "\<lparr>NIMaxLogLevel = 1, trace = [], traced = False, user = ()\<rparr>"
        "\<lparr>PRETTY_FUNCTION = ''-[Foo bar]'', PRENIY_FUNCTION = ''-[Foo bar]'', LINE = 10\<rparr>"
        "''n = %d''"]
    NIDCONDITIONLOG_logs_iff_condition
      [of "\<lparr>DEBUG = True, TARGET_IPHONE_SIMULATOR = False\<rparr>" "\<lambda>s. (False, s)"
        "\<lparr>NIMaxLogLevel = 1, trace = [], traced = False, user = ()\<rparr>" False
        "\<lparr>NIMaxLogLevel = 1, trace = [], traced = False, user = ()\<rparr>"
        "\<lambda>s. ([CInt 7], s)" "[CInt 7]"
        "\<lparr>NIMaxLogLevel = 1, trace = [], traced = False, user = ()\<rparr>"
        "\<lparr>PRETTY_FUNCTION = ''-[Foo bar]'', PRENIY_FUNCTION = ''-[Foo bar]'', LINE = 10\<rparr>"
        "''n = %d''"]
  by (simp add: NSLog_def)

text \<open>
  C1, as the header has it. A level-based logger logs its message (and evaluates its
  arguments) exactly when the build is a debug build and the rank of its level is at
  most the threshold: Error is 1, Warning 3, Info 5, and the threshold is any integer.
  In a release build it logs nothing, whatever the threshold.
\<close>

theorem level_loggers_log_iff_debug_and_rank_le_threshold:
  assumes "va_args w = (vs, w1)"
  shows "NIDERROR b cs xx va_args w =
           (if DEBUG b \<and> NILOGLEVEL_ERROR \<le> NIMaxLogLevel w then
              NSLog (''%s(%d): '' @ xx) (CString (PRENIY_FUNCTION cs) # CInt (LINE cs) # vs) w1
            else w) \<and>
         NIDWARNING b cs xx va_args w =
           (if DEBUG b \<and> NILOGLEVEL_WARNING \<le> NIMaxLogLevel w then
              NSLog (''%s(%d): '' @ xx) (CString (PRENIY_FUNCTION cs) # CInt (LINE cs) # vs) w1
            else w) \<and>
         NIDINFO b cs xx va_args w =
           (if DEBUG b \<and> NILOGLEVEL_INFO \<le> NIMaxLogLevel w then
              NSLog (''%s(%d): '' @ xx) (CString (PRENIY_FUNCTION cs) # CInt (LINE cs) # vs) w1
            else w)"
  using assms
  by (simp add: NIDERROR_def NIDWARNING_def NIDINFO_def NIDCONDITIONLOG_def NIDPRINT_def)

text \<open>
  A debug build. With the threshold at the Error level the Error call logs and the
  Warning and Info calls do not; with the threshold 4, between Warning and Info, the
  Warning call logs and the Info call does not.
\<close>

theorem level_loggers_log_iff_debug_and_rank_le_threshold_witness:
  "NIDERROR \<lparr>DEBUG = True, TARGET_IPHONE_SIMULATOR = False\<rparr>
     \<lparr>PRETTY_FUNCTION = ''-[Foo bar]'', PRENIY_FUNCTION = ''-[Foo bar]'', LINE = 10\<rparr>
     ''lost'' (\<lambda>s. ([], s))
     \<lparr>NIMaxLogLevel = NILOGLEVEL_ERROR, trace = [], traced = False, user = ()\<rparr>
   = \<lparr>NIMaxLogLevel = NILOGLEVEL_ERROR,
      trace = [LogLine ''%s(%d): lost'' [CString ''-[Foo bar]'', CInt 10]],
      traced = False, user = ()\<rparr> \<and>
   NIDWARNING \<lparr>DEBUG = True, TARGET_IPHONE_SIMULATOR = False\<rparr>
     \<lparr>PRETTY_FUNCTION = ''-[Foo bar]'', PRENIY_FUNCTION = ''-[Foo bar]'', LINE = 10\<rparr>
     ''lost'' (\<lambda>s. ([], s))
     \<lparr>NIMaxLogLevel = NILOGLEVEL_ERROR, trace = [], traced = False, user = ()\<rparr>
   = \<lparr>NIMaxLogLevel = NILOGLEVEL_ERROR, trace = [], traced = False, user = ()\<rparr> \<and>
   NIDINFO \<lparr>DEBUG = True, TARGET_IPHONE_SIMULATOR = False\<rparr>
     \<lparr>PRETTY_FUNCTION = ''-[Foo bar]'', PRENIY_FUNCTION = ''-[Foo bar]'', LINE = 10\<rparr>
     ''lost'' (\<lambda>s. ([], s))
     \<lparr>NIMaxLogLevel = NILOGLEVEL_ERROR, trace = [], traced = False, user = ()\<rparr>
   = \<lparr>NIMaxLogLevel = NILOGLEVEL_ERROR, trace = [], traced = False, user = ()\<rparr> \<and>
   NIDWARNING \<lparr>DEBUG = True, TARGET_IPHONE_SIMULATOR = False\<rparr>
     \<lparr>PRETTY_FUNCTION = ''-[Foo bar]'', PRENIY_FUNCTION = ''-[Foo bar]'', LINE = 10\<rparr>
     ''lost'' (\<lambda>s. ([], s))
     \<lparr>NIMaxLogLevel = 4, trace = [], traced = False, user = ()\<rparr>
   = \<lparr>NIMaxLogLevel = 4,
      trace = [LogLine ''%s(%d): lost'' [CString ''-[Foo bar]'', CInt 10]],
      traced = False, user = ()\<rparr> \<and>
   NIDINFO \<lparr>DEBUG = True, TARGET_IPHONE_SIMULATOR = False\<rparr>
     \<lparr>PRETTY_FUNCTION = ''-[Foo bar]'', PRENIY_FUNCTION = ''-[Foo bar]'', LINE = 10\<rparr>
     ''lost'' (\<lambda>s. ([], s))
     \<lparr>NIMaxLogLevel = 4, trace = [], traced = False, user = ()\<rparr>
   = \<lparr>NIMaxLogLevel = 4, trace = [], traced = False, user = ()\<rparr>"
  using
    level_loggers_log_iff_debug_and_rank_le_threshold
      [of "\<lambda>s. ([], s)"
        "\<lparr>NIMaxLogLevel = NILOGLEVEL_ERROR, trace = [], traced = False, user = ()\<rparr>" "[]"
        "\<lparr>NIMaxLogLevel = NILOGLEVEL_ERROR, trace = [], traced = False, user = ()\<rparr>"
        "\<lparr>DEBUG = True, TARGET_IPHONE_SIMULATOR = False\<rparr>"
        "\<lparr>PRETTY_FUNCTION = ''-[Foo bar]'', PRENIY_FUNCTION = ''-[Foo bar]'', LINE = 10\<rparr>"
        "''lost''"]
    level_loggers_log_iff_debug_and_rank_le_threshold
      [of "\<lambda>s. ([], s)"
        "\<lparr>NIMaxLogLevel = 4, trace = [], traced = False, user = ()\<rparr>" "[]"
        "\<lparr>NIMaxLogLevel = 4, trace = [], traced = False, user = ()\<rparr>"
        "\<lparr>DEBUG = True, TARGET_IPHONE_SIMULATOR = False\<rparr>"
        "\<lparr>PRETTY_FUNCTION = ''-[Foo bar]'', PRENIY_FUNCTION = ''-[Foo bar]'', LINE = 10\<rparr>"
        "''lost''"]
  by (simp add: NSLog_def NILOGLEVEL_ERROR_def NILOGLEVEL_WARNING_def NILOGLEVEL_INFO_def)

text \<open>
  A release build with the threshold at the Info level: the rank of Error, 1, is at most
  the threshold, 5, and the Error call logs nothing. So "logs exactly when the rank is at
  most the threshold" does not hold of every build.
\<close>

theorem level_loggers_release_counterexample:
  "\<not> (trace (NIDERROR \<lparr>DEBUG = False, TARGET_IPHONE_SIMULATOR = False\<rparr>
              \<lparr>PRETTY_FUNCTION = ''-[Foo bar]'', PRENIY_FUNCTION = ''-[Foo bar]'', LINE = 10\<rparr>
              ''lost'' (\<lambda>s. ([], s))
              \<lparr>NIMaxLogLevel = NILOGLEVEL_INFO, trace = [], traced = False, user = ()\<rparr>)
         \<noteq> trace \<lparr>NIMaxLogLevel = NILOGLEVEL_INFO, trace = [], traced = False, user = ()\<rparr>
       \<longleftrightarrow>
       NILOGLEVEL_ERROR \<le>
         NIMaxLogLevel \<lparr>NIMaxLogLevel = NILOGLEVEL_INFO, trace = [], traced = False, user = ()\<rparr>)"
  by (simp add: NIDERROR_def NIDCONDITIONLOG_def NILOGLEVEL_ERROR_def NILOGLEVEL_INFO_def)

subsection \<open>The assertion\<close>

text \<open>
  C3. In a debug build, a false condition makes \<^verbatim>\<open>NIDASSERT\<close> add exactly one line to
  the log, whose last argument is the text of the condition, whatever the threshold
  \<^verbatim>\<open>NIMaxLogLevel\<close> is. The breakpoint trap follows only when a debugger is attached (and
  the build is for the simulator). The process goes on in both cases: the result is never
  a signal.
\<close>

theorem NIDASSERT_failed_logs_once_and_continues:
  assumes "DEBUG b" and "xx w = (False, w1)"
  shows "NIDASSERT b cs xx_text xx w =
           Inr (w1\<lparr>trace := trace w1 @
                  LogLine ''%s(%d): NIDASSERT failed: %s''
                    [CString (PRENIY_FUNCTION cs), CInt (LINE cs), CString xx_text] #
                  (if TARGET_IPHONE_SIMULATOR b \<and> traced w1 then [Breakpoint] else [])\<rparr>)"
  using assms
  by (simp add: NIDASSERT_def NIDPRINT_def NSLog_def NIIsInDebugger_def int3_def)

text \<open>
  The assertion \<^verbatim>\<open>NIDASSERT(n > 0)\<close> with \<^verbatim>\<open>n\<close> = 0 in a debug build for the simulator,
  with the threshold below every level: without a debugger, one line and no trap; under
  a debugger, the line and then the trap.
\<close>

theorem NIDASSERT_failed_logs_once_and_continues_witness:
  "NIDASSERT \<lparr>DEBUG = True, TARGET_IPHONE_SIMULATOR = True\<rparr>
     \<lparr>PRETTY_FUNCTION = ''-[Foo bar]'', PRENIY_FUNCTION = ''-[Foo bar]'', LINE = 10\<rparr>
     ''n > 0'' (\<lambda>s. (0 < user s, s))
     \<lparr>NIMaxLogLevel = 0, trace = [], traced = False, user = (0::int)\<rparr>
   = Inr \<lparr>NIMaxLogLevel = 0,
          trace = [LogLine ''%s(%d): NIDASSERT failed: %s''
                     [CString ''-[Foo bar]'', CInt 10, CString ''n > 0'']],
          traced = False, user = 0\<rparr> \<and>
   NIDASSERT \<lparr>DEBUG = True, TARGET_IPHONE_SIMULATOR = True\<rparr>
     \<lparr>PRETTY_FUNCTION = ''-[Foo bar]'', PRENIY_FUNCTION = ''-[Foo bar]'', LINE = 10\<rparr>
     ''n > 0'' (\<lambda>s. (0 < user s, s))
     \<lparr>NIMaxLogLevel = 0, trace = [], traced = True, user = (0::int)\<rparr>
   = Inr \<lparr>NIMaxLogLevel = 0,
          trace = [LogLine ''%s(%d): NIDASSERT failed: %s''
                     [CString ''-[Foo bar]'', CInt 10, CString ''n > 0''],
                   Breakpoint],
          traced = True, user = 0\<rparr>"
  using
    NIDASSERT_failed_logs_once_and_continues
      [of "\<lparr>DEBUG = True, TARGET_IPHONE_SIMULATOR = True\<rparr>" "\<lambda>s. (0 < user s, s)"
        "\<lparr>NIMaxLogLevel = 0, trace = [], traced = False, user = (0::int)\<rparr>"
        "\<lparr>NIMaxLogLevel = 0, trace = [], traced = False, user = (0::int)\<rparr>"
        "\<lparr>PRETTY_FUNCTION = ''-[Foo bar]'', PRENIY_FUNCTION = ''-[Foo bar]'', LINE = 10\<rparr>"
        "''n > 0''"]
    NIDASSERT_failed_logs_once_and_continues
      [of "\<lparr>DEBUG = True, TARGET_IPHONE_SIMULATOR = True\<rparr>" "\<lambda>s. (0 < user s, s)"
        "\<lparr>NIMaxLogLevel = 0, trace = [], traced = True, user = (0::int)\<rparr>"
        "\<lparr>NIMaxLogLevel = 0, trace = [], traced = True, user = (0::int)\<rparr>"
        "\<lparr>PRETTY_FUNCTION = ''-[Foo bar]'', PRENIY_FUNCTION = ''-[Foo bar]'', LINE = 10\<rparr>"
        "''n > 0''"]
  by simp

subsection \<open>The name of the enclosing method\<close>

text \<open>
  C9. \<^verbatim>\<open>NIDPRINTMETHODNAME\<close> in a debug build, in the method \<^verbatim>\<open>-[Foo bar]\<close>: the line
  that it logs does not hold the name of the method. The macro passes the identifier
  that lines 103 and 111 spell, \<^verbatim>\<open>__PRENIY_FUNCTION__\<close>, twice, and that is not the
  compiler's \<^verbatim>\<open>__PRETTY_FUNCTION__\<close>: here the build defines it as the name of the
  file, \<^verbatim>\<open>Foo.m\<close>. The threshold plays no part (lemma \<^verbatim>\<open>NIDPRINTMETHODNAME_debug\<close>).
\<close>

theorem NIDPRINTMETHODNAME_logs_PRENIY_FUNCTION:
  "trace (NIDPRINTMETHODNAME \<lparr>DEBUG = True, TARGET_IPHONE_SIMULATOR = False\<rparr>
            \<lparr>PRETTY_FUNCTION = ''-[Foo bar]'', PRENIY_FUNCTION = ''Foo.m'', LINE = 10\<rparr>
            \<lparr>NIMaxLogLevel = 5, trace = [], traced = False, user = ()\<rparr>)
   = [LogLine ''%s(%d): %s'' [CString ''Foo.m'', CInt 10, CString ''Foo.m'']] \<and>
   CString (PRETTY_FUNCTION
      \<lparr>PRETTY_FUNCTION = ''-[Foo bar]'', PRENIY_FUNCTION = ''Foo.m'', LINE = 10\<rparr>)
     \<notin> set [CString ''Foo.m'', CInt 10, CString ''Foo.m'']"
  by (simp add: NIDPRINTMETHODNAME_def NIDPRINT_def NSLog_def)

section \<open>Properties of the collections, the predicates and the paths\<close>

subsection \<open>Non-empty collection testing\<close>

lemma fcard_pos_iff: "(0 < fcard s) = (s \<noteq> {||})"
  by (cases "s = {||}") (auto simp: fcard_fempty dest: fcard_0_eq [THEN iffD1])

text \<open>
  C4. Each predicate is a total function to a truth value and nothing else. It is true
  exactly of a value of its shape (an array, a set, a string) that is not empty: so it is
  false of \<^verbatim>\<open>nil\<close>, false of a value of another shape and false of an empty value of
  its shape.
\<close>

theorem emptiness_predicates:
  "NIIsArrayWithObjects v = (\<exists>xs. v = NSArray xs \<and> xs \<noteq> []) \<and>
   NIIsSetWithObjects v = (\<exists>s. v = NSSet s \<and> s \<noteq> {||}) \<and>
   NIIsStringWithAnyText v = (\<exists>t. v = NSString t \<and> t \<noteq> [])"
  by (cases v) (simp_all add: fcard_pos_iff)

text \<open>The values of the spec's third testable property, and a set taken for an array.\<close>

theorem emptiness_predicates_witness:
  "\<not> NIIsArrayWithObjects nil \<and>
   \<not> NIIsArrayWithObjects (NSArray []) \<and>
   NIIsArrayWithObjects (NSArray [NSNumber 1]) \<and>
   \<not> NIIsArrayWithObjects (NSSet {|NSNumber 1|}) \<and>
   \<not> NIIsSetWithObjects (NSSet {||}) \<and>
   NIIsSetWithObjects (NSSet {|NSNumber 1|}) \<and>
   \<not> NIIsStringWithAnyText (NSString []) \<and>
   NIIsStringWithAnyText (NSString ''a'') \<and>
   \<not> NIIsStringWithAnyText (NSNumber 42)"
  using emptiness_predicates [of nil] emptiness_predicates [of "NSArray []"]
    emptiness_predicates [of "NSArray [NSNumber 1]"]
    emptiness_predicates [of "NSSet {|NSNumber 1|}"]
    emptiness_predicates [of "NSSet {||}"]
    emptiness_predicates [of "NSString []"]
    emptiness_predicates [of "NSString ''a''"]
    emptiness_predicates [of "NSNumber 42"]
  by simp

subsection \<open>Non-retaining collections\<close>

lemma addObjects_non_retaining:
  "\<not> array_retains a \<Longrightarrow>
   addObjects rs a h = Inr (a\<lparr>array_items := array_items a @ rs\<rparr>, h)"
  by (induction rs arbitrary: a) (simp_all add: addObject_def)

lemma setObject_non_retaining:
  "\<not> dictionary_retains_values d \<Longrightarrow>
   setObject r k d h = Inr (d\<lparr>dictionary_entries := (dictionary_entries d)(k \<mapsto> r)\<rparr>, h)"
  by (simp add: setObject_def)

lemma map_upd_then_add: "m(k \<mapsto> r) ++ n = m ++ (Map.empty(k \<mapsto> r) ++ n)"
  by (rule ext) (simp add: map_add_def split: option.splits)

lemma setObjects_non_retaining:
  "\<not> dictionary_retains_values d \<Longrightarrow>
   setObjects krs d h =
     Inr (d\<lparr>dictionary_entries := dictionary_entries d ++ map_of (rev krs)\<rparr>, h)"
proof (induction krs arbitrary: d)
  case Nil
  then show ?case by simp
next
  case (Cons kr krs)
  obtain k r where kr: "kr = (k, r)" by (cases kr)
  let ?d = "d\<lparr>dictionary_entries := (dictionary_entries d)(k \<mapsto> r)\<rparr>"
  have "\<not> dictionary_retains_values ?d" using Cons.prems by simp
  then have "setObjects krs ?d h =
      Inr (?d\<lparr>dictionary_entries := dictionary_entries ?d ++ map_of (rev krs)\<rparr>, h)"
    by (rule Cons.IH)
  then have "setObjects (kr # krs) d h =
      Inr (d\<lparr>dictionary_entries := (dictionary_entries d)(k \<mapsto> r) ++ map_of (rev krs)\<rparr>, h)"
    using Cons.prems by (simp add: kr setObject_non_retaining)
  also have "(dictionary_entries d)(k \<mapsto> r) ++ map_of (rev krs) =
      dictionary_entries d ++ map_of (rev (kr # krs))"
    unfolding kr by (subst map_upd_then_add) simp
  finally show ?case .
qed

lemma addMembers_non_retaining:
  "\<not> set_retains s \<Longrightarrow>
   \<exists>s1. addMembers rs s h = Inr (s1, h) \<and> \<not> set_retains s1 \<and>
        set (set_members s1) = set (set_members s) \<union> set rs"
proof (induction rs arbitrary: s)
  case Nil
  then show ?case by simp
next
  case (Cons r rs)
  show ?case
  proof (cases "r \<in> set (set_members s)")
    case True
    with Cons.IH [OF Cons.prems] show ?thesis
      by (auto simp: addMember_def)
  next
    case False
    let ?s = "s\<lparr>set_members := set_members s @ [r]\<rparr>"
    have "\<not> set_retains ?s" using Cons.prems by simp
    from Cons.IH [OF this] False Cons.prems show ?thesis
      by (auto simp: addMember_def)
  qed
qed

text \<open>
  For contrast, a collection that owns its objects: the array's reference keeps the
  object alive after its first owner has released it.
\<close>

lemma retaining_array_keeps_object_alive:
  assumes "h r = Some 1"
  shows "\<exists>a h1 h2. addObject r \<lparr>array_retains = True, array_items = []\<rparr> h = Inr (a, h1) \<and>
           release r h1 = Inr h2 \<and> h2 r = Some 1"
  using assms by (simp add: addObject_def retain_def release_def)

text \<open>
  C5. Whatever is put into a container of one of the three factories, the heap after the
  insertions is the heap before them: no retain count has gone up. So when the one owner
  of an inserted object \<^verbatim>\<open>r\<close> (in the dictionary: the value last set for the key
  \<^verbatim>\<open>k\<close>) releases it, the object is destroyed; its entry is still in the container,
  and a message to it is a fault.
\<close>

theorem non_retaining_containers_do_not_extend_lifetime:
  assumes "h r = Some 1" and "r \<in> set rs" and "map_of (rev krs) k = Some r"
  shows "(\<exists>a. addObjects rs NICreateNonRetainingArray h = Inr (a, h) \<and>
              r \<in> set (array_items a)) \<and>
         (\<exists>d. setObjects krs NICreateNonRetainingDictionary h = Inr (d, h) \<and>
              dictionary_entries d k = Some r) \<and>
         (\<exists>s. addMembers rs NICreateNonRetainingSet h = Inr (s, h) \<and>
              r \<in> set (set_members s)) \<and>
         release r h = Inr (h(r := None)) \<and>
         retain r (h(r := None)) = Inl (Dangling r)"
proof -
  have array: "\<exists>a. addObjects rs NICreateNonRetainingArray h = Inr (a, h) \<and>
                 r \<in> set (array_items a)"
    using assms(2) by (simp add: addObjects_non_retaining NICreateNonRetainingArray_def)
  have dictionary: "\<exists>d. setObjects krs NICreateNonRetainingDictionary h = Inr (d, h) \<and>
                      dictionary_entries d k = Some r"
    using assms(3)
    by (simp add: setObjects_non_retaining NICreateNonRetainingDictionary_def)
  have "\<not> set_retains NICreateNonRetainingSet"
    by (simp add: NICreateNonRetainingSet_def)
  from addMembers_non_retaining [OF this, of rs h] assms(2)
  have members: "\<exists>s. addMembers rs NICreateNonRetainingSet h = Inr (s, h) \<and>
                   r \<in> set (set_members s)"
    by auto
  have gone: "release r h = Inr (h(r := None))"
    using assms(1) by (simp add: release_def)
  have dangling: "retain r (h(r := None)) = Inl (Dangling r)"
    by (simp add: retain_def)
  from array dictionary members gone dangling show ?thesis by (intro conjI)
qed

text \<open>One delegate, object 1, with one owner, put into each of the three containers.\<close>

theorem non_retaining_containers_do_not_extend_lifetime_witness:
  "addObjects [1] NICreateNonRetainingArray (Map.empty(1 \<mapsto> 1)) =
     Inr (\<lparr>array_retains = False, array_items = [1]\<rparr>, Map.empty(1 \<mapsto> 1)) \<and>
   setObjects [(''delegate'', 1)] NICreateNonRetainingDictionary (Map.empty(1 \<mapsto> 1)) =
     Inr (\<lparr>dictionary_retains_values = False,
            dictionary_entries = Map.empty(''delegate'' \<mapsto> 1)\<rparr>,
          Map.empty(1 \<mapsto> 1)) \<and>
   addMembers [1] NICreateNonRetainingSet (Map.empty(1 \<mapsto> 1)) =
     Inr (\<lparr>set_retains = False, set_members = [1]\<rparr>, Map.empty(1 \<mapsto> 1)) \<and>
   release 1 (Map.empty(1 \<mapsto> 1)) = Inr Map.empty \<and>
   retain 1 Map.empty = Inl (Dangling 1)"
  using non_retaining_containers_do_not_extend_lifetime
    [of "Map.empty(1 \<mapsto> 1)" 1 "[1]" "[(''delegate'', 1)]" "''delegate''"]
  by (simp add: NICreateNonRetainingArray_def NICreateNonRetainingDictionary_def
      NICreateNonRetainingSet_def addObject_def setObject_def addMember_def retain_def)

subsection \<open>Paths\<close>

lemma appendPathComponent_junction:
  "appendPathComponent base relativePath =
     (if base \<noteq> [] \<and> last base = CHR ''/'' then
        (if relativePath \<noteq> [] \<and> hd relativePath = CHR ''/'' then base @ tl relativePath
         else base @ relativePath)
      else
        (if relativePath \<noteq> [] \<and> hd relativePath = CHR ''/'' then base @ relativePath
         else base @ ''/'' @ relativePath))"
proof (cases "base \<noteq> [] \<and> last base = CHR ''/''")
  case True
  then have "butlast base @ ''/'' = base"
    using append_butlast_last_id [of base] by simp
  then have trimmed: "butlast base @ ''/'' @ r = base @ r" for r
    by (metis append_assoc)
  show ?thesis
    using True by (simp add: appendPathComponent_def trimmed del: append_Cons append_Nil)
next
  case False
  show ?thesis
    unfolding appendPathComponent_def Let_def if_not_P [OF False]
    by (cases relativePath) simp_all
qed

text \<open>
  C8. For every base directory and every relative path, each path builder returns the
  concatenation of the two with the separator normalised where they meet: the separator
  is put in exactly when neither the base ends in one nor the relative path starts with
  one, and when both have one, one of the two is left out. The base is the bundle's
  resource path (the main bundle's for a nil bundle) or the documents directory. The
  result is a function of the base and the relative path alone: no state of the process
  or of the file system goes in or comes out.
\<close>

theorem path_builders_concatenate:
  "NIPathForBundleResource h bundle relativePath =
     (let base = resourcePath (case bundle of None \<Rightarrow> mainBundle h | Some b \<Rightarrow> b) in
      if base \<noteq> [] \<and> last base = CHR ''/'' then
        (if relativePath \<noteq> [] \<and> hd relativePath = CHR ''/'' then base @ tl relativePath
         else base @ relativePath)
      else
        (if relativePath \<noteq> [] \<and> hd relativePath = CHR ''/'' then base @ relativePath
         else base @ ''/'' @ relativePath)) \<and>
   NIPathForDocumentsResource h relativePath =
     (let base = documentsDirectory h in
      if base \<noteq> [] \<and> last base = CHR ''/'' then
        (if relativePath \<noteq> [] \<and> hd relativePath = CHR ''/'' then base @ tl relativePath
         else base @ relativePath)
      else
        (if relativePath \<noteq> [] \<and> hd relativePath = CHR ''/'' then base @ relativePath
         else base @ ''/'' @ relativePath))"
proof -
  have bundle_path:
    "NIPathForBundleResource h bundle relativePath =
       (let base = resourcePath (case bundle of None \<Rightarrow> mainBundle h | Some b \<Rightarrow> b) in
        if base \<noteq> [] \<and> last base = CHR ''/'' then
          (if relativePath \<noteq> [] \<and> hd relativePath = CHR ''/'' then base @ tl relativePath
           else base @ relativePath)
        else
          (if relativePath \<noteq> [] \<and> hd relativePath = CHR ''/'' then base @ relativePath
           else base @ ''/'' @ relativePath))"
    unfolding NIPathForBundleResource_def Let_def
    by (rule appendPathComponent_junction)
  have documents_path:
    "NIPathForDocumentsResource h relativePath =
       (let base = documentsDirectory h in
        if base \<noteq> [] \<and> last base = CHR ''/'' then
          (if relativePath \<noteq> [] \<and> hd relativePath = CHR ''/'' then base @ tl relativePath
           else base @ relativePath)
        else
          (if relativePath \<noteq> [] \<and> hd relativePath = CHR ''/'' then base @ relativePath
           else base @ ''/'' @ relativePath))"
    unfolding NIPathForDocumentsResource_def Let_def
    by (rule appendPathComponent_junction)
  from bundle_path documents_path show ?thesis by (intro conjI)
qed

text \<open>
  The base "/app" with "img/x.png" and with "/img/x.png", and the base "/docs/", which
  ends in a separator, with the same two relative paths.
\<close>

theorem path_builders_concatenate_witness:
  "NIPathForBundleResource
     \<lparr>mainBundle = \<lparr>resourcePath = ''/main''\<rparr>, documentsDirectory = ''/docs/''\<rparr>
     (Some \<lparr>resourcePath = ''/app''\<rparr>) ''img/x.png'' = ''/app/img/x.png'' \<and>
   NIPathForBundleResource
     \<lparr>mainBundle = \<lparr>resourcePath = ''/main''\<rparr>, documentsDirectory = ''/docs/''\<rparr>
     (Some \<lparr>resourcePath = ''/app''\<rparr>) ''/img/x.png'' = ''/app/img/x.png'' \<and>
   NIPathForBundleResource
     \<lparr>mainBundle = \<lparr>resourcePath = ''/main''\<rparr>, documentsDirectory = ''/docs/''\<rparr>
     None ''img/x.png'' = ''/main/img/x.png'' \<and>
   NIPathForDocumentsResource
     \<lparr>mainBundle = \<lparr>resourcePath = ''/main''\<rparr>, documentsDirectory = ''/docs/''\<rparr>
     ''img/x.png'' = ''/docs/img/x.png'' \<and>
   NIPathForDocumentsResource
     \<lparr>mainBundle = \<lparr>resourcePath = ''/main''\<rparr>, documentsDirectory = ''/docs/''\<rparr>
     ''/img/x.png'' = ''/docs/img/x.png''"
  using
    path_builders_concatenate
      [of "\<lparr>mainBundle = \<lparr>resourcePath = ''/main''\<rparr>, documentsDirectory = ''/docs/''\<rparr>"
        "Some \<lparr>resourcePath = ''/app''\<rparr>" "''img/x.png''"]
    path_builders_concatenate
      [of "\<lparr>mainBundle = \<lparr>resourcePath = ''/main''\<rparr>, documentsDirectory = ''/docs/''\<rparr>"
        "Some \<lparr>resourcePath = ''/app''\<rparr>" "''/img/x.png''"]
    path_builders_concatenate
      [of "\<lparr>mainBundle = \<lparr>resourcePath = ''/main''\<rparr>, documentsDirectory = ''/docs/''\<rparr>"
        None "''img/x.png''"]
  by simp

end
